theory Spec2Isabelle
  imports Complex_Main
begin

section \<open>Python values and errors\<close>

text \<open>
  Exceptions are values: a function that can raise returns \<open>py_error + 'a\<close>, with
  \<open>Inl\<close> the exception. \<open>OtherError\<close> stands for an exception surfaced by the wrapped
  Reddit library during a fetch.
\<close>

datatype py_error =
    ValueError string
  | ZeroDivisionError
  | KeyError string
  | OtherError string

text \<open>
  The process environment read by \<open>os.getenv\<close>: a variable that is not set reads as
  \<open>None\<close>.
\<close>

type_synonym environ = "string \<rightharpoonup> string"

text \<open>Truthiness of an \<open>Optional[str]\<close>: \<open>None\<close> and the empty string are falsy.\<close>

definition truthy_str :: "string option \<Rightarrow> bool" where
  "truthy_str v = (case v of None \<Rightarrow> False | Some s \<Rightarrow> s \<noteq> [])"

section \<open>config.py\<close>

record Config =
  client_id :: string
  client_secret :: string
  user_agent :: string
  username :: "string option"
  password :: "string option"

definition missing_message :: string where
  "missing_message =
     ''Missing required environment variables: '' @
     ''REDDIT_CLIENT_ID and REDDIT_CLIENT_SECRET must be set''"

text \<open>
  \<open>os.getenv(key, default)\<close>.
\<close>

definition getenv_default :: "environ \<Rightarrow> string \<Rightarrow> string \<Rightarrow> string" where
  "getenv_default env k d = (case env k of None \<Rightarrow> d | Some v \<Rightarrow> v)"

text \<open>
  \<open>Config.from_env\<close>. The call \<open>load_dotenv(env_file)\<close> of the third-party dotenv
  package updates the process environment from a file; its effect on the environment is
  the parameter \<open>load_dotenv\<close>. Everything after it reads the updated environment.
  In the branch that returns, both mandatory values are known to be strings, so
  \<open>the\<close> is applied to \<open>Some\<close> values only.
\<close>

definition from_env :: "(environ \<Rightarrow> environ) \<Rightarrow> environ \<Rightarrow> py_error + Config" where
  "from_env load_dotenv environ0 =
     (let env = load_dotenv environ0;
          cid = env ''REDDIT_CLIENT_ID'';
          csecret = env ''REDDIT_CLIENT_SECRET'';
          agent = getenv_default env ''REDDIT_USER_AGENT'' ''reddit-api-client/1.0''
      in if \<not> truthy_str cid \<or> \<not> truthy_str csecret
         then Inl (ValueError missing_message)
         else Inr \<lparr> client_id = the cid,
                    client_secret = the csecret,
                    user_agent = agent,
                    username = env ''REDDIT_USERNAME'',
                    password = env ''REDDIT_PASSWORD'' \<rparr>)"

text \<open>\<open>Config.is_authenticated\<close>: \<open>bool(self.username and self.password)\<close>.\<close>

definition is_authenticated :: "Config \<Rightarrow> bool" where
  "is_authenticated c = (truthy_str (username c) \<and> truthy_str (password c))"

section \<open>api_client.py\<close>

subsection \<open>Objects of the wrapped library\<close>

text \<open>
  The objects handed out by the wrapped library are taken as records of the attributes
  the client reads. Floating-point attributes have the abstract type \<open>'f\<close>. An
  \<open>author\<close> attribute is either null or a redditor object; an object is truthy, whatever
  its name, and \<open>str\<close> of it is its name. The \<open>subreddit\<close> attribute of a submission,
  which the client only passes to \<open>str\<close>, is given by that string.
\<close>

datatype redditor = Redditor string

fun str_redditor :: "redditor \<Rightarrow> string" where
  "str_redditor (Redditor n) = n"

record 'f submission =
  sub_id :: string
  sub_title :: string
  sub_author :: "redditor option"
  sub_score :: int
  sub_upvote_ratio :: 'f
  sub_num_comments :: int
  sub_created_utc :: 'f
  sub_url :: string
  sub_permalink :: string
  sub_is_self :: bool
  sub_selftext :: string
  sub_link_flair_text :: "string option"
  sub_subreddit :: string
  sub_over_18 :: bool
  sub_spoiler :: bool
  sub_stickied :: bool

record 'f comment =
  com_id :: string
  com_author :: "redditor option"
  com_body :: string
  com_score :: int
  com_created_utc :: 'f
  com_permalink :: string
  com_is_submitter :: bool
  com_parent_id :: string
  com_depth :: int

text \<open>
  An entry of \<open>submission.comments.list()\<close>: a comment, which has a \<open>body\<close> attribute,
  or a placeholder for replies not fetched yet, which has none.
\<close>

datatype 'f listing_entry = Comment "'f comment" | MoreComments

fun has_body :: "'f listing_entry \<Rightarrow> bool" where
  "has_body (Comment c) = True"
| "has_body MoreComments = False"

subsection \<open>Returned dictionaries\<close>

text \<open>
  The post and comment dictionaries have the same keys on every path, so they are
  records, one field for each key. The statistics dictionary has different keys on its
  two return paths, so it is a list of key-value pairs in the order of the dictionary
  literal.
\<close>

record 'f post =
  post_id :: string
  post_title :: string
  post_author :: string
  post_score :: int
  post_upvote_ratio :: 'f
  post_num_comments :: int
  post_created_utc :: string
  post_url :: string
  post_permalink :: string
  post_is_self :: bool
  post_selftext :: "string option"
  post_link_flair_text :: "string option"
  post_subreddit :: string
  post_is_over18 :: bool
  post_spoiler :: bool
  post_stickied :: bool

record comment_dict =
  cd_id :: string
  cd_author :: string
  cd_body :: string
  cd_score :: int
  cd_created_utc :: string
  cd_permalink :: string
  cd_is_submitter :: bool
  cd_parent_id :: string
  cd_depth :: int

datatype 'f pyval = PyInt int | PyFloat 'f | PyStr string

type_synonym 'f pydict = "(string \<times> 'f pyval) list"

definition has_key :: "'f pydict \<Rightarrow> string \<Rightarrow> bool" where
  "has_key d k = (k \<in> set (map fst d))"

definition getitem :: "'f pydict \<Rightarrow> string \<Rightarrow> py_error + 'f pyval" where
  "getitem d k = (case map_of d k of None \<Rightarrow> Inl (KeyError k) | Some v \<Rightarrow> Inr v)"

subsection \<open>Formatting helpers\<close>

text \<open>
  \<open>_format_submission\<close> and \<open>_format_comment\<close>. The parameter \<open>isoformat\<close> is
  \<open>datetime.fromtimestamp(t).isoformat()\<close> of the standard library.
\<close>

definition format_submission :: "('f \<Rightarrow> string) \<Rightarrow> 'f submission \<Rightarrow> 'f post" where
  "format_submission isoformat s =
     \<lparr> post_id = sub_id s,
       post_title = sub_title s,
       post_author = (case sub_author s of Some a \<Rightarrow> str_redditor a | None \<Rightarrow> ''[deleted]''),
       post_score = sub_score s,
       post_upvote_ratio = sub_upvote_ratio s,
       post_num_comments = sub_num_comments s,
       post_created_utc = isoformat (sub_created_utc s),
       post_url = sub_url s,
       post_permalink = ''https://reddit.com'' @ sub_permalink s,
       post_is_self = sub_is_self s,
       post_selftext = (if sub_is_self s then Some (sub_selftext s) else None),
       post_link_flair_text = sub_link_flair_text s,
       post_subreddit = sub_subreddit s,
       post_is_over18 = sub_over_18 s,
       post_spoiler = sub_spoiler s,
       post_stickied = sub_stickied s \<rparr>"

definition format_comment :: "('f \<Rightarrow> string) \<Rightarrow> 'f comment \<Rightarrow> comment_dict" where
  "format_comment isoformat c =
     \<lparr> cd_id = com_id c,
       cd_author = (case com_author c of Some a \<Rightarrow> str_redditor a | None \<Rightarrow> ''[deleted]''),
       cd_body = com_body c,
       cd_score = com_score c,
       cd_created_utc = isoformat (com_created_utc c),
       cd_permalink = ''https://reddit.com'' @ com_permalink c,
       cd_is_submitter = com_is_submitter c,
       cd_parent_id = com_parent_id c,
       cd_depth = com_depth c \<rparr>"

subsection \<open>Fetch operations\<close>

text \<open>
  \<open>get_hot_posts\<close>: the loop appends the formatted form of every submission that
  \<open>subreddit.hot(limit=limit)\<close> yields; \<open>hot\<close> is that sequence.
\<close>

definition get_hot_posts :: "('f \<Rightarrow> string) \<Rightarrow> 'f submission list \<Rightarrow> 'f post list" where
  "get_hot_posts isoformat hot = map (format_submission isoformat) hot"

text \<open>
  \<open>get_post_comments\<close>. A limit is truthy when it is neither \<open>None\<close> nor \<open>0\<close>. With a
  truthy limit the client first calls \<open>replace_more(limit=0)\<close>, which drops every
  placeholder from the comment forest. The loop then walks the listing, appends each
  entry that has a body, and breaks once the limit is truthy and reached.
\<close>

definition truthy_limit :: "int option \<Rightarrow> bool" where
  "truthy_limit limit = (case limit of None \<Rightarrow> False | Some n \<Rightarrow> n \<noteq> 0)"

definition replace_more0 :: "'f listing_entry list \<Rightarrow> 'f listing_entry list" where
  "replace_more0 entries = filter has_body entries"

fun comments_loop ::
  "('f \<Rightarrow> string) \<Rightarrow> int option \<Rightarrow> 'f listing_entry list \<Rightarrow> comment_dict list
     \<Rightarrow> comment_dict list" where
  "comments_loop isoformat limit [] comments = comments"
| "comments_loop isoformat limit (MoreComments # rest) comments =
     comments_loop isoformat limit rest comments"
| "comments_loop isoformat limit (Comment c # rest) comments =
     (let comments' = comments @ [format_comment isoformat c]
      in if truthy_limit limit \<and> int (length comments') \<ge> the limit
         then comments'
         else comments_loop isoformat limit rest comments')"

definition get_post_comments ::
  "('f \<Rightarrow> string) \<Rightarrow> int option \<Rightarrow> 'f listing_entry list \<Rightarrow> comment_dict list" where
  "get_post_comments isoformat limit listing =
     comments_loop isoformat limit
       (if truthy_limit limit then replace_more0 listing else listing) []"

subsection \<open>Statistics aggregation\<close>

text \<open>
  Python's \<open>a / b\<close> on integers raises \<open>ZeroDivisionError\<close> when \<open>b\<close> is zero and
  otherwise yields the float nearest to the quotient; \<open>fdiv\<close> is that rounding
  quotient. Integers so large that the quotient leaves the range of a float are outside
  the model: scores and comment counts are the numbers of a fetched listing.
\<close>

definition py_truediv :: "(int \<Rightarrow> int \<Rightarrow> 'f) \<Rightarrow> int \<Rightarrow> int \<Rightarrow> py_error + 'f" where
  "py_truediv fdiv a b = (if b = 0 then Inl ZeroDivisionError else Inr (fdiv a b))"

text \<open>
  \<open>get_subreddit_stats\<close>; \<open>now\<close> is \<open>datetime.now().isoformat()\<close> and \<open>hot\<close> the
  sequence that the hot listing yields.
\<close>

definition get_subreddit_stats ::
  "(int \<Rightarrow> int \<Rightarrow> 'f) \<Rightarrow> string \<Rightarrow> ('f \<Rightarrow> string) \<Rightarrow> 'f submission list
     \<Rightarrow> py_error + 'f pydict" where
  "get_subreddit_stats fdiv now isoformat hot =
     (let posts = get_hot_posts isoformat hot
      in if posts = [] then
           Inr [(''total_posts'', PyInt 0),
                (''total_score'', PyInt 0),
                (''total_comments'', PyInt 0),
                (''average_score'', PyInt 0),
                (''average_comments'', PyInt 0)]
         else
           let total_score = sum_list (map post_score posts);
               total_comments = sum_list (map post_num_comments posts)
           in case py_truediv fdiv total_score (int (length posts)) of
                Inl e \<Rightarrow> Inl e
              | Inr average_score \<Rightarrow>
                  (case py_truediv fdiv total_comments (int (length posts)) of
                     Inl e \<Rightarrow> Inl e
                   | Inr average_comments \<Rightarrow>
                       Inr [(''total_posts'', PyInt (int (length posts))),
                            (''total_score'', PyInt total_score),
                            (''total_comments'', PyInt total_comments),
                            (''average_score'', PyFloat average_score),
                            (''average_comments'', PyFloat average_comments),
                            (''analyzed_time'', PyStr now)]))"

text \<open>
  \<open>search_posts\<close>: as \<open>get_hot_posts\<close>, over the sequence that \<open>subreddit.search\<close>
  yields.
\<close>

definition search_posts :: "('f \<Rightarrow> string) \<Rightarrow> 'f submission list \<Rightarrow> 'f post list" where
  "search_posts isoformat found = map (format_submission isoformat) found"

section \<open>Example scripts\<close>

text \<open>
  \<open>s.replace(old, new)\<close> as the scripts call it, with one-character strings: every
  occurrence of the character \<open>old\<close> becomes \<open>new\<close>. A string is a list of bytes here;
  the two characters involved are ASCII, which never occur inside a multi-byte
  character of UTF-8.
\<close>

definition replace_chr :: "char \<Rightarrow> char \<Rightarrow> string \<Rightarrow> string" where
  "replace_chr old new s = map (\<lambda>c. if c = old then new else c) s"

text \<open>The three \<open>output_file\<close> expressions.\<close>

definition hot_output_file :: "string \<Rightarrow> string" where
  "hot_output_file subreddit_name = subreddit_name @ ''_hot_posts.json''"

definition search_output_file :: "string \<Rightarrow> string \<Rightarrow> string" where
  "search_output_file subreddit_name query =
     subreddit_name @ ''_search_'' @ replace_chr (CHR '' '') (CHR ''_'') query @ ''.json''"

definition stats_output_file :: "string \<Rightarrow> string" where
  "stats_output_file subreddit_name = subreddit_name @ ''_stats.json''"

text \<open>
  A run of a script is the list of its effects outside the process, in order: a call
  that goes to the network, and the JSON file opened for writing at the end. Console
  input and output, the contents of the file and the answer of the file system are not
  recorded. A fetch is given by its outcome, the exception raised or the sequence
  yielded, whatever the subreddit name: the answer of the service is not part of this
  repository. A value read from the console is given after \<open>.strip()\<close>; the empty
  string is falsy, so \<open>or\<close> replaces it by the default.
\<close>

datatype effect = Network | WriteFile string

definition or_default :: "string \<Rightarrow> string \<Rightarrow> string" where
  "or_default s d = (if s = [] then d else s)"

text \<open>\<open>examples/fetch_hot_posts.py\<close>, \<open>main\<close>.\<close>

definition fetch_hot_posts_main ::
  "(environ \<Rightarrow> environ) \<Rightarrow> environ \<Rightarrow> ('f \<Rightarrow> string)
     \<Rightarrow> py_error + 'f submission list \<Rightarrow> effect list" where
  "fetch_hot_posts_main load_dotenv environ0 isoformat hot =
     (case from_env load_dotenv environ0 of
        Inl e \<Rightarrow> []
      | Inr config \<Rightarrow>
          let subreddit_name = ''python''
          in (case hot of
                Inl e \<Rightarrow> [Network]
              | Inr listing \<Rightarrow>
                  let posts = get_hot_posts isoformat listing
                  in [Network, WriteFile (hot_output_file subreddit_name)]))"

text \<open>
  \<open>examples/search_posts.py\<close>, \<open>main\<close>: the script returns without writing when the
  search finds nothing.
\<close>

definition search_posts_main ::
  "(environ \<Rightarrow> environ) \<Rightarrow> environ \<Rightarrow> ('f \<Rightarrow> string) \<Rightarrow> string \<Rightarrow> string
     \<Rightarrow> py_error + 'f submission list \<Rightarrow> effect list" where
  "search_posts_main load_dotenv environ0 isoformat subreddit_in query_in found =
     (case from_env load_dotenv environ0 of
        Inl e \<Rightarrow> []
      | Inr config \<Rightarrow>
          let subreddit_name = or_default subreddit_in ''python'';
              query = or_default query_in ''machine learning''
          in (case found of
                Inl e \<Rightarrow> [Network]
              | Inr listing \<Rightarrow>
                  let posts = search_posts isoformat listing
                  in if posts = [] then [Network]
                     else [Network, WriteFile (search_output_file subreddit_name query)]))"

text \<open>
  \<open>examples/fetch_subreddit_stats.py\<close>, \<open>main\<close>: one fetch for the subreddit
  information, one for the hot listing behind the statistics; \<open>info\<close> is the outcome of
  fetching and printing the information. Before writing, the script prints six entries
  of the statistics dictionary, read by key; a missing key raises \<open>KeyError\<close>, which
  the handler around the whole block catches.
\<close>

definition stats_keys_printed :: "string list" where
  "stats_keys_printed =
     [''total_posts'', ''total_score'', ''total_comments'',
      ''average_score'', ''average_comments'', ''analyzed_time'']"

definition fetch_subreddit_stats_main ::
  "(environ \<Rightarrow> environ) \<Rightarrow> environ \<Rightarrow> (int \<Rightarrow> int \<Rightarrow> 'f) \<Rightarrow> string \<Rightarrow> ('f \<Rightarrow> string)
     \<Rightarrow> string \<Rightarrow> py_error + 'i \<Rightarrow> py_error + 'f submission list \<Rightarrow> effect list" where
  "fetch_subreddit_stats_main load_dotenv environ0 fdiv now isoformat subreddit_in info hot =
     (case from_env load_dotenv environ0 of
        Inl e \<Rightarrow> []
      | Inr config \<Rightarrow>
          let subreddit_name = or_default subreddit_in ''python''
          in (case info of
                Inl e \<Rightarrow> [Network]
              | Inr info_dict \<Rightarrow>
                  (case hot of
                     Inl e \<Rightarrow> [Network, Network]
                   | Inr listing \<Rightarrow>
                       (case get_subreddit_stats fdiv now isoformat listing of
                          Inl e \<Rightarrow> [Network, Network]
                        | Inr stats \<Rightarrow>
                            if list_all (has_key stats) stats_keys_printed
                            then [Network, Network, WriteFile (stats_output_file subreddit_name)]
                            else [Network, Network]))))"

section \<open>Specification-side notions and sample inputs\<close>

text \<open>
  The real comments of a listing, in listing order: what is left when the placeholders
  are taken out. The code never computes this list; the statements about
  \<open>get_post_comments\<close> compare its result with it.
\<close>

fun real_comments :: "'f listing_entry list \<Rightarrow> 'f comment list" where
  "real_comments [] = []"
| "real_comments (Comment c # rest) = c # real_comments rest"
| "real_comments (MoreComments # rest) = real_comments rest"

text \<open>
  Concrete inputs on which the theorems below are exercised. Floats are rationals
  there, with the exact quotient for the division and a constant for the timestamp
  format.
\<close>

definition rat_div :: "int \<Rightarrow> int \<Rightarrow> rat" where
  "rat_div a b = of_int a / of_int b"

definition iso_sample :: "rat \<Rightarrow> string" where
  "iso_sample t = ''2024-01-01T00:00:00''"

definition sub_a :: "rat submission" where
  "sub_a = \<lparr> sub_id = ''a1'', sub_title = ''First'', sub_author = Some (Redditor ''alice''),
             sub_score = 10, sub_upvote_ratio = 9 / 10, sub_num_comments = 3,
             sub_created_utc = 1700000000, sub_url = ''https://example.org/a'',
             sub_permalink = ''/r/python/comments/a1/'', sub_is_self = True,
             sub_selftext = ''hello'', sub_link_flair_text = None,
             sub_subreddit = ''python'', sub_over_18 = False, sub_spoiler = False,
             sub_stickied = False \<rparr>"

definition sub_b :: "rat submission" where
  "sub_b = \<lparr> sub_id = ''b2'', sub_title = ''Second'', sub_author = None,
             sub_score = 20, sub_upvote_ratio = 1 / 2, sub_num_comments = 4,
             sub_created_utc = 1700000100, sub_url = ''https://example.org/b'',
             sub_permalink = ''/r/python/comments/b2/'', sub_is_self = False,
             sub_selftext = ''hidden'', sub_link_flair_text = Some ''News'',
             sub_subreddit = ''python'', sub_over_18 = False, sub_spoiler = False,
             sub_stickied = True \<rparr>"

definition com_a :: "rat comment" where
  "com_a = \<lparr> com_id = ''c1'', com_author = Some (Redditor ''carol''), com_body = ''nice'',
             com_score = 5, com_created_utc = 1700000200,
             com_permalink = ''/r/python/comments/a1/_/c1/'', com_is_submitter = False,
             com_parent_id = ''t3_a1'', com_depth = 0 \<rparr>"

definition com_b :: "rat comment" where
  "com_b = \<lparr> com_id = ''c2'', com_author = None, com_body = ''gone'',
             com_score = 1, com_created_utc = 1700000300,
             com_permalink = ''/r/python/comments/a1/_/c2/'', com_is_submitter = True,
             com_parent_id = ''t1_c1'', com_depth = 1 \<rparr>"

definition listing_sample :: "rat listing_entry list" where
  "listing_sample = [Comment com_a, MoreComments, Comment com_b]"

definition env_complete :: environ where
  "env_complete =
     [''REDDIT_CLIENT_ID'' \<mapsto> ''abc'', ''REDDIT_CLIENT_SECRET'' \<mapsto> ''secret'',
      ''REDDIT_USERNAME'' \<mapsto> ''bob'']"

definition env_no_secret :: environ where
  "env_no_secret = [''REDDIT_CLIENT_ID'' \<mapsto> ''abc'']"

definition env_blank_id :: environ where
  "env_blank_id = [''REDDIT_CLIENT_ID'' \<mapsto> [], ''REDDIT_CLIENT_SECRET'' \<mapsto> ''secret'']"

definition env_blank_secret :: environ where
  "env_blank_secret = [''REDDIT_CLIENT_ID'' \<mapsto> ''abc'', ''REDDIT_CLIENT_SECRET'' \<mapsto> []]"

definition cfg_blank_username :: Config where
  "cfg_blank_username =
     \<lparr> client_id = ''abc'', client_secret = ''secret'', user_agent = ''agent'',
       username = Some [], password = Some ''pw'' \<rparr>"

definition cfg_full :: Config where
  "cfg_full =
     \<lparr> client_id = ''abc'', client_secret = ''secret'', user_agent = ''agent'',
       username = Some ''bob'', password = Some ''pw'' \<rparr>"

definition cfg_other :: Config where
  "cfg_other =
     \<lparr> client_id = ''xyz'', client_secret = ''other'', user_agent = ''agent/2'',
       username = Some ''bob'', password = Some ''pw'' \<rparr>"

section \<open>Configuration loading\<close>

lemma from_env_complete:
  "from_env id env_complete =
     Inr \<lparr> client_id = ''abc'', client_secret = ''secret'',
           user_agent = ''reddit-api-client/1.0'',
           username = Some ''bob'', password = None \<rparr>"
  by (simp add: from_env_def env_complete_def truthy_str_def getenv_default_def)

text \<open>
  C1, as stated, fails: in \<open>env_blank_id\<close> both mandatory variables are present, the
  client id with the empty string as its value, and \<open>from_env\<close> raises.
\<close>

theorem from_env_blank_id_raises:
  "env_blank_id ''REDDIT_CLIENT_ID'' \<noteq> None \<and>
   env_blank_id ''REDDIT_CLIENT_SECRET'' \<noteq> None \<and>
   from_env id env_blank_id = Inl (ValueError missing_message)"
  by (simp add: env_blank_id_def from_env_def truthy_str_def)

text \<open>
  C1 (amended): in every environment in which \<open>REDDIT_CLIENT_ID\<close> or
  \<open>REDDIT_CLIENT_SECRET\<close> is missing or empty, \<open>Config.from_env\<close> raises the
  \<open>ValueError\<close>, and each example script then ends with no effect outside the process,
  so before any network activity. In every environment in which both are present and
  not empty, \<open>Config.from_env\<close> returns a \<open>Config\<close> holding the two values, the user
  agent or its default, and the optional credentials as read.
\<close>

theorem from_env_cases:
  "((load_dotenv environ0 ''REDDIT_CLIENT_ID'' = None \<or>
     load_dotenv environ0 ''REDDIT_CLIENT_ID'' = Some [] \<or>
     load_dotenv environ0 ''REDDIT_CLIENT_SECRET'' = None \<or>
     load_dotenv environ0 ''REDDIT_CLIENT_SECRET'' = Some [])
    \<longrightarrow> from_env load_dotenv environ0 = Inl (ValueError missing_message)
        \<and> fetch_hot_posts_main load_dotenv environ0 isoformat hot = []
        \<and> search_posts_main load_dotenv environ0 isoformat sub_in query_in found = []
        \<and> fetch_subreddit_stats_main load_dotenv environ0 fdiv now isoformat sub_in info hot
            = [])
   \<and> (\<forall>i s. load_dotenv environ0 ''REDDIT_CLIENT_ID'' = Some i \<and> i \<noteq> [] \<and>
             load_dotenv environ0 ''REDDIT_CLIENT_SECRET'' = Some s \<and> s \<noteq> []
        \<longrightarrow> from_env load_dotenv environ0 =
              Inr \<lparr> client_id = i, client_secret = s,
                    user_agent = (case load_dotenv environ0 ''REDDIT_USER_AGENT'' of
                                    None \<Rightarrow> ''reddit-api-client/1.0'' | Some a \<Rightarrow> a),
                    username = load_dotenv environ0 ''REDDIT_USERNAME'',
                    password = load_dotenv environ0 ''REDDIT_PASSWORD'' \<rparr>)"
proof -
  have raises: "from_env load_dotenv environ0 = Inl (ValueError missing_message)"
    if "load_dotenv environ0 ''REDDIT_CLIENT_ID'' = None \<or>
        load_dotenv environ0 ''REDDIT_CLIENT_ID'' = Some [] \<or>
        load_dotenv environ0 ''REDDIT_CLIENT_SECRET'' = None \<or>
        load_dotenv environ0 ''REDDIT_CLIENT_SECRET'' = Some []"
    using that unfolding from_env_def Let_def
    by (auto simp: truthy_str_def)
  have returns: "from_env load_dotenv environ0 =
              Inr \<lparr> client_id = i, client_secret = s,
                    user_agent = (case load_dotenv environ0 ''REDDIT_USER_AGENT'' of
                                    None \<Rightarrow> ''reddit-api-client/1.0'' | Some a \<Rightarrow> a),
                    username = load_dotenv environ0 ''REDDIT_USERNAME'',
                    password = load_dotenv environ0 ''REDDIT_PASSWORD'' \<rparr>"
    if "load_dotenv environ0 ''REDDIT_CLIENT_ID'' = Some i" "i \<noteq> []"
       "load_dotenv environ0 ''REDDIT_CLIENT_SECRET'' = Some s" "s \<noteq> []" for i s
    using that unfolding from_env_def Let_def
    by (simp add: truthy_str_def getenv_default_def)
  show ?thesis
    using raises returns
    by (simp add: fetch_hot_posts_main_def search_posts_main_def
        fetch_subreddit_stats_main_def)
qed

theorem from_env_cases_witness:
  "id env_no_secret ''REDDIT_CLIENT_SECRET'' = None
   \<and> from_env id env_no_secret = Inl (ValueError missing_message)
   \<and> fetch_hot_posts_main id env_no_secret iso_sample (Inr [sub_a]) = []
   \<and> id env_complete ''REDDIT_CLIENT_ID'' = Some ''abc''
   \<and> id env_complete ''REDDIT_CLIENT_SECRET'' = Some ''secret''
   \<and> from_env id env_complete =
       Inr \<lparr> client_id = ''abc'', client_secret = ''secret'',
             user_agent = ''reddit-api-client/1.0'',
             username = Some ''bob'', password = None \<rparr>"
proof -
  have miss: "id env_no_secret ''REDDIT_CLIENT_SECRET'' = None"
    by (simp add: env_no_secret_def)
  have pres: "id env_complete ''REDDIT_CLIENT_ID'' = Some ''abc'' \<and> ''abc'' \<noteq> [] \<and>
              id env_complete ''REDDIT_CLIENT_SECRET'' = Some ''secret'' \<and> ''secret'' \<noteq> []"
    by (simp add: env_complete_def)
  have rest: "id env_complete ''REDDIT_USER_AGENT'' = None"
    "id env_complete ''REDDIT_USERNAME'' = Some ''bob''"
    "id env_complete ''REDDIT_PASSWORD'' = None"
    by (simp_all add: env_complete_def)
  from miss from_env_cases [of id env_no_secret iso_sample "Inr [sub_a]"]
  have a: "from_env id env_no_secret = Inl (ValueError missing_message)
     \<and> fetch_hot_posts_main id env_no_secret iso_sample (Inr [sub_a]) = []"
    by blast
  from pres from_env_cases [of id env_complete]
  have "from_env id env_complete =
       Inr \<lparr> client_id = ''abc'', client_secret = ''secret'',
             user_agent = (case id env_complete ''REDDIT_USER_AGENT'' of
                             None \<Rightarrow> ''reddit-api-client/1.0'' | Some a \<Rightarrow> a),
             username = id env_complete ''REDDIT_USERNAME'',
             password = id env_complete ''REDDIT_PASSWORD'' \<rparr>"
    by blast
  with miss pres rest a show ?thesis by simp
qed

text \<open>
  C2, as stated, fails: \<open>cfg_blank_username\<close> has both optional credentials present,
  the username being the empty string, and is not authenticated.
\<close>

theorem is_authenticated_blank_username:
  "username cfg_blank_username \<noteq> None \<and> password cfg_blank_username \<noteq> None \<and>
   \<not> is_authenticated cfg_blank_username"
  by (simp add: cfg_blank_username_def is_authenticated_def truthy_str_def)

text \<open>
  C2 (amended): for every \<open>Config\<close>, \<open>is_authenticated()\<close> is true if and only if the
  username and the password are both present and not empty; two configurations with the
  same username and password get the same answer.
\<close>

theorem is_authenticated_iff:
  "(is_authenticated c \<longleftrightarrow>
      (\<exists>u p. username c = Some u \<and> u \<noteq> [] \<and> password c = Some p \<and> p \<noteq> []))
   \<and> (username c = username c' \<and> password c = password c' \<longrightarrow>
        is_authenticated c = is_authenticated c')"
  by (auto simp: is_authenticated_def truthy_str_def split: option.splits)

theorem is_authenticated_iff_witness:
  "is_authenticated cfg_full \<and> username cfg_full = username cfg_other \<and>
   password cfg_full = password cfg_other \<and> cfg_full \<noteq> cfg_other \<and>
   is_authenticated cfg_other"
proof -
  have h: "username cfg_full = Some ''bob''" "password cfg_full = Some ''pw''"
    "username cfg_full = username cfg_other" "password cfg_full = password cfg_other"
    "cfg_full \<noteq> cfg_other"
    by (simp_all add: cfg_full_def cfg_other_def)
  from h(1,2) is_authenticated_iff [of cfg_full cfg_other]
  have a: "is_authenticated cfg_full" by simp
  from h(3,4) is_authenticated_iff [of cfg_full cfg_other]
  have "is_authenticated cfg_full = is_authenticated cfg_other" by blast
  with a h show ?thesis by simp
qed

text \<open>
  C10: an empty string counts as absent throughout the configuration. \<open>from_env\<close>
  raises the configuration error when the client id or the client secret is set to the
  empty string, exactly as when the variable is unset; \<open>is_authenticated\<close> is false
  when the username or the password is the empty string, exactly as when the field is
  \<open>None\<close>.
\<close>

theorem empty_credentials_absent:
  "((load_dotenv environ0 ''REDDIT_CLIENT_ID'' = Some [] \<or>
     load_dotenv environ0 ''REDDIT_CLIENT_SECRET'' = Some [])
      \<longrightarrow> from_env load_dotenv environ0 = Inl (ValueError missing_message))
   \<and> ((username c = Some [] \<or> password c = Some []) \<longrightarrow> \<not> is_authenticated c)
   \<and> from_env id (env(''REDDIT_CLIENT_ID'' \<mapsto> []))
       = from_env id (env(''REDDIT_CLIENT_ID'' := None))
   \<and> from_env id (env(''REDDIT_CLIENT_SECRET'' \<mapsto> []))
       = from_env id (env(''REDDIT_CLIENT_SECRET'' := None))
   \<and> is_authenticated (c\<lparr>username := Some []\<rparr>) = is_authenticated (c\<lparr>username := None\<rparr>)
   \<and> is_authenticated (c\<lparr>password := Some []\<rparr>) = is_authenticated (c\<lparr>password := None\<rparr>)"
  by (auto simp: from_env_def is_authenticated_def truthy_str_def Let_def)

theorem empty_credentials_absent_witness:
  "id env_blank_secret ''REDDIT_CLIENT_SECRET'' = Some [] \<and>
   from_env id env_blank_secret = Inl (ValueError missing_message) \<and>
   username cfg_blank_username = Some [] \<and> \<not> is_authenticated cfg_blank_username"
proof -
  have h: "id env_blank_secret ''REDDIT_CLIENT_SECRET'' = Some []"
    "username cfg_blank_username = Some []"
    by (simp_all add: env_blank_secret_def cfg_blank_username_def)
  from h empty_credentials_absent [of id env_blank_secret cfg_blank_username]
  show ?thesis by blast
qed

section \<open>Statistics aggregation\<close>

lemma get_hot_posts_fields:
  "length (get_hot_posts isoformat hot) = length hot"
  "map post_score (get_hot_posts isoformat hot) = map sub_score hot"
  "map post_num_comments (get_hot_posts isoformat hot) = map sub_num_comments hot"
  by (simp_all add: get_hot_posts_def format_submission_def comp_def)

text \<open>
  C3: when the fetched batch is empty, \<open>get_subreddit_stats\<close> returns the record whose
  count, sums and means are all the integer zero. It returns for every \<open>fdiv\<close> and the
  record does not mention \<open>fdiv\<close>: no division is performed. A division by the size of
  that batch would have raised \<open>ZeroDivisionError\<close> instead.
\<close>

theorem stats_empty_batch:
  "get_hot_posts isoformat hot = [] \<Longrightarrow>
   get_subreddit_stats fdiv now isoformat hot =
     Inr [(''total_posts'', PyInt 0), (''total_score'', PyInt 0),
          (''total_comments'', PyInt 0), (''average_score'', PyInt 0),
          (''average_comments'', PyInt 0)]
   \<and> py_truediv fdiv a (int (length (get_hot_posts isoformat hot))) = Inl ZeroDivisionError"
  by (simp add: get_subreddit_stats_def py_truediv_def)

theorem stats_empty_batch_witness:
  "get_hot_posts iso_sample [] = [] \<and>
   get_subreddit_stats rat_div ''2024-05-05T12:00:00'' iso_sample [] =
     Inr [(''total_posts'', PyInt 0), (''total_score'', PyInt 0),
          (''total_comments'', PyInt 0), (''average_score'', PyInt 0),
          (''average_comments'', PyInt 0)]"
proof -
  have h: "get_hot_posts iso_sample [] = []"
    by (simp add: get_hot_posts_def)
  from stats_empty_batch [OF h, of rat_div "''2024-05-05T12:00:00''" 0] h
  show ?thesis by simp
qed

text \<open>
  C4: for a fetched batch \<open>posts\<close> of \<open>N > 0\<close> records, \<open>get_subreddit_stats\<close> returns
  \<open>total_posts = N\<close>, the sums of the records' \<open>score\<close> and \<open>num_comments\<close> fields, and
  as the two averages the quotient \<open>/\<close> of each sum by \<open>N\<close>. The batch has one record
  for each submission of the listing, with the submission's score and comment count.
\<close>

theorem stats_nonempty_batch:
  assumes "posts = get_hot_posts isoformat hot" and "posts \<noteq> []"
  shows "get_subreddit_stats fdiv now isoformat hot =
     Inr [(''total_posts'', PyInt (int (length posts))),
          (''total_score'', PyInt (sum_list (map post_score posts))),
          (''total_comments'', PyInt (sum_list (map post_num_comments posts))),
          (''average_score'',
             PyFloat (fdiv (sum_list (map post_score posts)) (int (length posts)))),
          (''average_comments'',
             PyFloat (fdiv (sum_list (map post_num_comments posts)) (int (length posts)))),
          (''analyzed_time'', PyStr now)]
     \<and> length posts = length hot
     \<and> sum_list (map post_score posts) = sum_list (map sub_score hot)
     \<and> sum_list (map post_num_comments posts) = sum_list (map sub_num_comments hot)"
proof -
  from assms have "int (length posts) \<noteq> 0" by simp
  with assms show ?thesis
    unfolding get_subreddit_stats_def Let_def
    by (simp add: py_truediv_def get_hot_posts_fields)
qed

theorem stats_nonempty_batch_witness:
  "get_hot_posts iso_sample [sub_a, sub_b] \<noteq> [] \<and>
   get_subreddit_stats rat_div ''2024-05-05T12:00:00'' iso_sample [sub_a, sub_b] =
     Inr [(''total_posts'', PyInt 2), (''total_score'', PyInt 30),
          (''total_comments'', PyInt 7), (''average_score'', PyFloat 15),
          (''average_comments'', PyFloat (7 / 2)),
          (''analyzed_time'', PyStr ''2024-05-05T12:00:00'')]"
proof -
  have ne: "get_hot_posts iso_sample [sub_a, sub_b] \<noteq> []"
    by (simp add: get_hot_posts_def)
  have sums: "sum_list (map sub_score [sub_a, sub_b]) = 30"
    "sum_list (map sub_num_comments [sub_a, sub_b]) = 7"
    by (simp_all add: sub_a_def sub_b_def)
  from stats_nonempty_batch [OF refl ne, of rat_div "''2024-05-05T12:00:00''"] sums ne
  show ?thesis by (simp add: rat_div_def)
qed

text \<open>
  The path for a batch that is not empty puts the computation timestamp into the
  record.
\<close>

lemma stats_nonempty_has_timestamp:
  "hot \<noteq> [] \<Longrightarrow>
   (case get_subreddit_stats fdiv now isoformat hot of
      Inl e \<Rightarrow> False
    | Inr stats \<Rightarrow> getitem stats ''analyzed_time'' = Inr (PyStr now))"
  by (simp add: get_subreddit_stats_def get_hot_posts_def getitem_def
      py_truediv_def Let_def)

text \<open>
  C5 says that the statistics record has a computation timestamp for every batch, the
  empty one included. On the empty batch the code returns a record without the key
  \<open>analyzed_time\<close>: reading it raises \<open>KeyError\<close>, and the statistics script, which
  prints that entry, ends after its two fetches without writing its file.
\<close>

theorem stats_empty_lacks_timestamp:
  "(case get_subreddit_stats fdiv now isoformat [] of
      Inl e \<Rightarrow> False
    | Inr stats \<Rightarrow>
        \<not> has_key stats ''analyzed_time'' \<and>
        getitem stats ''analyzed_time'' = Inl (KeyError ''analyzed_time''))
   \<and> fetch_subreddit_stats_main id env_complete fdiv now isoformat ''python'' (Inr info) (Inr [])
       = [Network, Network]"
  by (simp add: get_subreddit_stats_def get_hot_posts_def has_key_def getitem_def
      fetch_subreddit_stats_main_def from_env_complete stats_keys_printed_def)

section \<open>Formatting\<close>

text \<open>
  C6: \<open>_format_submission\<close> and \<open>_format_comment\<close> set the author field to the
  sentinel \<open>[deleted]\<close> when the author of the source object is null, and to the string
  form of the author otherwise.
\<close>

theorem format_author_sentinel:
  "(sub_author s = None \<longrightarrow> post_author (format_submission isoformat s) = ''[deleted]'')
   \<and> (\<forall>a. sub_author s = Some a \<longrightarrow>
          post_author (format_submission isoformat s) = str_redditor a)
   \<and> (com_author c = None \<longrightarrow> cd_author (format_comment isoformat c) = ''[deleted]'')
   \<and> (\<forall>a. com_author c = Some a \<longrightarrow>
          cd_author (format_comment isoformat c) = str_redditor a)"
  by (simp add: format_submission_def format_comment_def)

theorem format_author_sentinel_witness:
  "sub_author sub_b = None \<and> post_author (format_submission iso_sample sub_b) = ''[deleted]''
   \<and> sub_author sub_a = Some (Redditor ''alice'')
   \<and> post_author (format_submission iso_sample sub_a) = ''alice''
   \<and> com_author com_b = None \<and> cd_author (format_comment iso_sample com_b) = ''[deleted]''
   \<and> com_author com_a = Some (Redditor ''carol'')
   \<and> cd_author (format_comment iso_sample com_a) = ''carol''"
proof -
  have h: "sub_author sub_b = None" "sub_author sub_a = Some (Redditor ''alice'')"
    "com_author com_b = None" "com_author com_a = Some (Redditor ''carol'')"
    by (simp_all add: sub_a_def sub_b_def com_a_def com_b_def)
  from h format_author_sentinel [of sub_b iso_sample com_b]
    format_author_sentinel [of sub_a iso_sample com_a]
  show ?thesis by simp
qed

text \<open>
  C8: the post record has a selftext only for a self-post. When \<open>is_self\<close> is false the
  field is \<open>None\<close>; when it is true the field is the selftext of the submission.
\<close>

theorem format_submission_selftext:
  "(\<not> sub_is_self s \<longrightarrow> post_selftext (format_submission isoformat s) = None)
   \<and> (sub_is_self s \<longrightarrow>
        post_selftext (format_submission isoformat s) = Some (sub_selftext s))"
  by (simp add: format_submission_def)

theorem format_submission_selftext_witness:
  "\<not> sub_is_self sub_b \<and> post_selftext (format_submission iso_sample sub_b) = None
   \<and> sub_is_self sub_a \<and> post_selftext (format_submission iso_sample sub_a) = Some ''hello''"
proof -
  have h: "\<not> sub_is_self sub_b" "sub_is_self sub_a" "sub_selftext sub_a = ''hello''"
    by (simp_all add: sub_a_def sub_b_def)
  from h format_submission_selftext [of sub_b iso_sample]
    format_submission_selftext [of sub_a iso_sample]
  show ?thesis by simp
qed

section \<open>Comment listing\<close>

lemma real_comments_replace_more0:
  "real_comments (replace_more0 entries) = real_comments entries"
  unfolding replace_more0_def
  by (induction entries rule: real_comments.induct) simp_all

text \<open>
  With a falsy limit, \<open>None\<close> or \<open>0\<close>, the loop never breaks: it collects every real
  comment.
\<close>

lemma comments_loop_no_limit:
  "\<not> truthy_limit limit \<Longrightarrow>
   comments_loop isoformat limit entries acc =
     acc @ map (format_comment isoformat) (real_comments entries)"
  by (induction entries arbitrary: acc rule: real_comments.induct) (simp_all add: Let_def)

text \<open>
  With a positive limit and fewer comments collected than the limit, the loop ends with
  the first \<open>n\<close> of the comments collected so far followed by the real comments ahead.
\<close>

lemma comments_loop_pos_limit:
  "0 < n \<Longrightarrow> int (length acc) < n \<Longrightarrow>
   comments_loop isoformat (Some n) entries acc =
     take (nat n) (acc @ map (format_comment isoformat) (real_comments entries))"
proof (induction entries arbitrary: acc rule: real_comments.induct)
  case 1
  then show ?case by simp
next
  case (2 c rest)
  show ?case
  proof (cases "int (length acc) + 1 \<ge> n")
    case True
    with 2 have "nat n = Suc (length acc)" by linarith
    with True 2 show ?thesis by (simp add: truthy_limit_def Let_def)
  next
    case False
    then have "nat n - length acc = Suc (nat n - Suc (length acc))" by linarith
    with False 2 show ?thesis by (simp add: truthy_limit_def Let_def)
  qed
next
  case (3 rest)
  then show ?case by simp
qed

text \<open>A negative limit is truthy and reached by the first comment appended.\<close>

lemma comments_loop_neg_limit:
  "n < 0 \<Longrightarrow>
   comments_loop isoformat (Some n) entries acc =
     acc @ take 1 (map (format_comment isoformat) (real_comments entries))"
  by (induction entries arbitrary: acc rule: real_comments.induct)
    (simp_all add: truthy_limit_def Let_def)

lemma get_post_comments_neg_limit:
  "n < 0 \<Longrightarrow>
   get_post_comments isoformat (Some n) listing =
     take 1 (map (format_comment isoformat) (real_comments listing))"
  by (simp add: get_post_comments_def truthy_limit_def comments_loop_neg_limit
      real_comments_replace_more0)

text \<open>
  For every positive limit \<open>n\<close> the result is the formatted form of the first \<open>n\<close>
  real comments of the listing, in listing order and with every placeholder skipped,
  so it has \<open>min(n, number of real comments)\<close> entries. With no limit (\<open>None\<close>) it is
  the formatted form of all real comments.
\<close>

lemma get_post_comments_pos_limit:
  "0 < n \<Longrightarrow>
   get_post_comments isoformat (Some n) listing
     = take (nat n) (map (format_comment isoformat) (real_comments listing))"
  by (simp add: get_post_comments_def truthy_limit_def comments_loop_pos_limit
      real_comments_replace_more0)

lemma get_post_comments_pos_limit_length:
  "0 < n \<Longrightarrow>
   int (length (get_post_comments isoformat (Some n) listing))
     = min n (int (length (real_comments listing)))"
  by (simp add: get_post_comments_pos_limit)

lemma get_post_comments_no_limit:
  "get_post_comments isoformat None listing
     = map (format_comment isoformat) (real_comments listing)"
  by (simp add: get_post_comments_def truthy_limit_def comments_loop_no_limit)

lemma get_post_comments_pos_limit_sample:
  "get_post_comments iso_sample (Some 1) listing_sample = [format_comment iso_sample com_a]"
  by (simp add: get_post_comments_pos_limit listing_sample_def)

text \<open>
  C7 says that for every requested limit the result has exactly
  \<open>min(limit, number of real comments)\<close> entries, and the docstring calls the limit the
  maximum number of comments to fetch, with \<open>None\<close> for all. With the limit \<open>0\<close> the
  code does not stop: both tests of the limit are truthiness tests, so \<open>0\<close> is taken
  as \<open>None\<close>, and the result is every real comment of the listing. On the sample
  listing, two real comments around a placeholder, the result has two entries, not
  \<open>min(0, 2)\<close>.
\<close>

theorem get_post_comments_limit_zero:
  "get_post_comments isoformat (Some 0) listing
     = map (format_comment isoformat) (real_comments listing)
   \<and> get_post_comments isoformat (Some 0) listing = get_post_comments isoformat None listing
   \<and> get_post_comments iso_sample (Some 0) listing_sample
       = [format_comment iso_sample com_a, format_comment iso_sample com_b]
   \<and> int (length (get_post_comments iso_sample (Some 0) listing_sample))
       \<noteq> min 0 (int (length (real_comments listing_sample)))"
  by (simp add: get_post_comments_def truthy_limit_def comments_loop_no_limit
      listing_sample_def)

section \<open>Output files of the example scripts\<close>

lemma replace_chr_props:
  "length (replace_chr old new s) = length s"
  "old \<noteq> new \<Longrightarrow> old \<notin> set (replace_chr old new s)"
  "i < length s \<Longrightarrow> replace_chr old new s ! i = (if s ! i = old then new else s ! i)"
  by (auto simp: replace_chr_def)

text \<open>
  C9, as stated, fails: the statistics script keeps a space of the subreddit name in
  the filename. Run with the name \<open>ask reddit\<close>, it writes \<open>ask reddit_stats.json\<close>.
\<close>

theorem stats_output_file_keeps_space:
  "stats_output_file ''ask reddit'' = ''ask reddit_stats.json''
   \<and> stats_output_file ''ask reddit''
       \<noteq> replace_chr (CHR '' '') (CHR ''_'') ''ask reddit'' @ ''_stats.json''
   \<and> fetch_subreddit_stats_main id env_complete rat_div ''2024-05-05T12:00:00'' iso_sample
        ''ask reddit'' (Inr ()) (Inr [sub_a])
       = [Network, Network, WriteFile ''ask reddit_stats.json'']"
  by (simp add: stats_output_file_def replace_chr_def fetch_subreddit_stats_main_def
      from_env_complete or_default_def get_subreddit_stats_def get_hot_posts_def
      py_truediv_def stats_keys_printed_def has_key_def Let_def)

text \<open>
  C9 (amended): the filename is the subreddit name as it is, followed by
  \<open>_hot_posts.json\<close> or \<open>_stats.json\<close>, or, for the search script, by \<open>_search_\<close>, the
  query with every space replaced by an underscore, and \<open>.json\<close>. The only file a
  script writes has that name, for the subreddit name and the query the script runs
  with: the fixed name \<open>python\<close> in the hot-posts script, the console input or its
  default in the other two.
\<close>

theorem output_file_names:
  "hot_output_file subreddit_name = subreddit_name @ ''_hot_posts.json''
   \<and> stats_output_file subreddit_name = subreddit_name @ ''_stats.json''
   \<and> (\<exists>q. search_output_file subreddit_name query
              = subreddit_name @ ''_search_'' @ q @ ''.json''
          \<and> length q = length query
          \<and> CHR '' '' \<notin> set q
          \<and> (\<forall>i<length query.
                q ! i = (if query ! i = CHR '' '' then CHR ''_'' else query ! i)))
   \<and> (\<forall>f. WriteFile f \<in> set (fetch_hot_posts_main load_dotenv environ0 isoformat hot)
          \<longrightarrow> f = hot_output_file ''python'')
   \<and> (\<forall>f. WriteFile f
            \<in> set (search_posts_main load_dotenv environ0 isoformat sub_in query_in found)
          \<longrightarrow> f = search_output_file (or_default sub_in ''python'')
                     (or_default query_in ''machine learning''))
   \<and> (\<forall>f. WriteFile f
            \<in> set (fetch_subreddit_stats_main load_dotenv environ0 fdiv now isoformat
                      sub_in info hot)
          \<longrightarrow> f = stats_output_file (or_default sub_in ''python''))"
proof -
  have search: "\<exists>q. search_output_file subreddit_name query
              = subreddit_name @ ''_search_'' @ q @ ''.json''
          \<and> length q = length query
          \<and> CHR '' '' \<notin> set q
          \<and> (\<forall>i<length query.
                q ! i = (if query ! i = CHR '' '' then CHR ''_'' else query ! i))"
    by (rule exI [of _ "replace_chr (CHR '' '') (CHR ''_'') query"])
      (simp add: search_output_file_def replace_chr_props)
  have hot: "\<forall>f. WriteFile f \<in> set (fetch_hot_posts_main load_dotenv environ0 isoformat hot)
          \<longrightarrow> f = hot_output_file ''python''"
    by (auto simp: fetch_hot_posts_main_def Let_def split: sum.splits)
  have srch: "\<forall>f. WriteFile f
            \<in> set (search_posts_main load_dotenv environ0 isoformat sub_in query_in found)
          \<longrightarrow> f = search_output_file (or_default sub_in ''python'')
                     (or_default query_in ''machine learning'')"
    by (auto simp: search_posts_main_def Let_def split: sum.splits if_splits)
  have stats: "\<forall>f. WriteFile f
            \<in> set (fetch_subreddit_stats_main load_dotenv environ0 fdiv now isoformat
                      sub_in info hot)
          \<longrightarrow> f = stats_output_file (or_default sub_in ''python'')"
    by (auto simp: fetch_subreddit_stats_main_def Let_def split: sum.splits if_splits)
  from search hot srch stats show ?thesis
    by (simp add: hot_output_file_def stats_output_file_def)
qed

theorem output_file_names_witness:
  "search_output_file ''ask reddit'' ''a b'' = ''ask reddit_search_a_b.json''
   \<and> WriteFile ''python_search_machine_learning.json''
       \<in> set (search_posts_main id env_complete iso_sample [] [] (Inr [sub_a]))
   \<and> search_output_file (or_default [] ''python'') (or_default [] ''machine learning'')
       = ''python_search_machine_learning.json''"
proof -
  have run: "search_posts_main id env_complete iso_sample [] [] (Inr [sub_a])
      = [Network, WriteFile ''python_search_machine_learning.json'']"
    by (simp add: search_posts_main_def from_env_complete or_default_def search_posts_def
        search_output_file_def replace_chr_def)
  then have written: "WriteFile ''python_search_machine_learning.json''
       \<in> set (search_posts_main id env_complete iso_sample [] [] (Inr [sub_a]))"
    by simp
  note inst = output_file_names [of "''ask reddit''" "''a b''" id env_complete
      iso_sample "Inr [sub_a]" "[]" "[]" "Inr [sub_a]"]
  from inst obtain q where q:
    "search_output_file ''ask reddit'' ''a b'' = ''ask reddit'' @ ''_search_'' @ q @ ''.json''"
    "length q = length ''a b''"
    "\<forall>i<length ''a b''. q ! i = (if ''a b'' ! i = CHR '' '' then CHR ''_'' else ''a b'' ! i)"
    by blast
  have "q = ''a_b''"
  proof (rule nth_equalityI)
    show "length q = length ''a_b''" using q(2) by simp
  next
    fix i assume "i < length q"
    with q(2) have "i = 0 \<or> i = 1 \<or> i = 2" by auto
    with q(3) show "q ! i = ''a_b'' ! i" by auto
  qed
  with q(1) have name: "search_output_file ''ask reddit'' ''a b'' = ''ask reddit_search_a_b.json''"
    by simp
  from inst written
  have "''python_search_machine_learning.json''
      = search_output_file (or_default [] ''python'') (or_default [] ''machine learning'')"
    by blast
  with name written show ?thesis by simp
qed

end
